theory Spec2Isabelle
  imports Complex_Main "HOL-Library.Sublist"
begin

section \<open>Data model of \<^verbatim>\<open>BovineScanner.tsx\<close>\<close>

text \<open>
  The interface \<^verbatim>\<open>AnalysisResult\<close>. Every number the component stores in it is an
  integer, so the numeric fields are \<open>int\<close>. The source field \<^verbatim>\<open>length\<close> is named
  \<open>length_cm\<close> here because \<open>length\<close> is the list function of HOL.
\<close>

record AnalysisResult =
  height :: int
  length_cm :: int
  score :: int
  breed :: string
  confidence :: int

datatype ScanStage = Upload | Analyzing | Results

text \<open>The constant \<^verbatim>\<open>breeds\<close> (value and label; the icon is decoration only).\<close>

definition breeds :: "(string \<times> string) list" where
  "breeds =
     [(''sahiwal'', ''Sahiwal Cattle''),
      (''murrah'', ''Murrah Buffalo''),
      (''gir'', ''Gir Cattle''),
      (''holstein'', ''Holstein Friesian'')]"

text \<open>The own properties of the object literal \<^verbatim>\<open>sampleResults\<close>, in source order.\<close>

definition sampleResults :: "(string \<times> AnalysisResult) list" where
  "sampleResults =
     [(''sahiwal'',
        \<lparr>height = 142, length_cm = 155, score = 87, breed = ''Sahiwal'', confidence = 94\<rparr>),
      (''murrah'',
        \<lparr>height = 135, length_cm = 148, score = 92, breed = ''Murrah Buffalo'', confidence = 96\<rparr>),
      (''gir'',
        \<lparr>height = 138, length_cm = 150, score = 85, breed = ''Gir'', confidence = 89\<rparr>),
      (''holstein'',
        \<lparr>height = 145, length_cm = 160, score = 90, breed = ''Holstein Friesian'',
         confidence = 92\<rparr>)]"

text \<open>
  \<^verbatim>\<open>sampleResults\<close> is a plain object literal, so a property read
  \<^verbatim>\<open>sampleResults[key]\<close> that finds no own property continues on its prototype,
  \<^verbatim>\<open>Object.prototype\<close>. These are the property names of \<^verbatim>\<open>Object.prototype\<close>
  in ECMAScript; each of them holds a function or an object, hence a truthy value.
\<close>

definition Object_prototype_keys :: "string list" where
  "Object_prototype_keys =
     [''constructor'', ''hasOwnProperty'', ''isPrototypeOf'', ''propertyIsEnumerable'',
      ''toLocaleString'', ''toString'', ''valueOf'', ''__proto__'',
      ''__defineGetter__'', ''__defineSetter__'', ''__lookupGetter__'', ''__lookupSetter__'']"

text \<open>
  What a property read on \<^verbatim>\<open>sampleResults\<close> yields: an entry of the table, a member
  inherited from the prototype, or \<^verbatim>\<open>undefined\<close>.
\<close>

datatype looked_up = Entry AnalysisResult | Inherited | Undefined

definition sampleResults_get :: "string \<Rightarrow> looked_up" where
  "sampleResults_get key =
     (case map_of sampleResults key of
        Some r \<Rightarrow> Entry r
      | None \<Rightarrow> if key \<in> set Object_prototype_keys then Inherited else Undefined)"

text \<open>The operator \<^verbatim>\<open>a || b\<close>: \<^verbatim>\<open>undefined\<close> is the only falsy value among these.\<close>

definition js_or :: "looked_up \<Rightarrow> looked_up \<Rightarrow> looked_up" where
  "js_or a b = (case a of Undefined \<Rightarrow> b | _ \<Rightarrow> a)"

text \<open>
  What \<^verbatim>\<open>setAnalysisResult\<close> receives. \<open>Measured r\<close> is an object with the five fields
  of the interface. \<open>Malformed\<close> is the object the callback builds when \<^verbatim>\<open>result\<close> is
  an inherited member: the spread copies nothing, \<^verbatim>\<open>result.height\<close> and
  \<^verbatim>\<open>result.score\<close> are \<^verbatim>\<open>undefined\<close>, so \<^verbatim>\<open>height\<close> and \<^verbatim>\<open>score\<close> are
  \<^verbatim>\<open>NaN\<close>, and \<^verbatim>\<open>breed\<close> and \<^verbatim>\<open>confidence\<close> are missing.
\<close>

datatype outcome = Measured AnalysisResult | Malformed

text \<open>The browser's \<^verbatim>\<open>File\<close>: the two properties the component reads, and its name.\<close>

record File =
  file_name :: string
  file_type :: string
  file_size :: nat

text \<open>
  The calls of \<^verbatim>\<open>toast\<close>, one constructor for each call site. The completion toast
  keeps the two holes of its template: \<^verbatim>\<open>finalResult.breed\<close> and
  \<^verbatim>\<open>finalResult.confidence\<close> (\<open>None\<close> where the property is \<^verbatim>\<open>undefined\<close>).
\<close>

datatype toast =
  InvalidFileType
| FileTooLarge
| ImageUploaded
| AnalysisComplete "string option" "int option"
| ResultsSaved

fun title :: "toast \<Rightarrow> string" where
  "title InvalidFileType = ''Invalid File Type''"
| "title FileTooLarge = ''File Too Large''"
| "title ImageUploaded = ''Image Uploaded''"
| "title (AnalysisComplete b c) = ''Analysis Complete''"
| "title ResultsSaved = ''Results Saved''"

fun destructive :: "toast \<Rightarrow> bool" where
  "destructive InvalidFileType = True"
| "destructive FileTooLarge = True"
| "destructive t = False"

text \<open>The six \<^verbatim>\<open>useState\<close> cells of the component.\<close>

record component =
  selectedBreed :: string
  selectedFile :: "File option"
  previewUrl :: string
  scanStage :: ScanStage
  analysisResult :: "outcome option"
  isDragging :: bool

text \<open>
  The component together with what its handlers act on outside it: the toasts emitted,
  the object URLs created by \<^verbatim>\<open>URL.createObjectURL\<close>, the arguments of the calls of
  \<^verbatim>\<open>URL.revokeObjectURL\<close>, and the pending \<^verbatim>\<open>setTimeout\<close> callbacks, each with
  the \<^verbatim>\<open>selectedBreed\<close> its closure captured.
\<close>

record world =
  ui :: component
  toasts :: "toast list"
  created :: "string list"
  revoked :: "string list"
  timers :: "string list"

definition initial :: world where
  "initial =
     \<lparr>ui = \<lparr>selectedBreed = [], selectedFile = None, previewUrl = [], scanStage = Upload,
             analysisResult = None, isDragging = False\<rparr>,
      toasts = [], created = [], revoked = [], timers = []\<rparr>"

section \<open>Handlers\<close>

text \<open>
  \<^verbatim>\<open>URL.createObjectURL\<close> returns a fresh, non-empty URL: the \<open>n\<close>-th one created is
  \<open>blob:\<close> followed by \<open>n\<close> marks.
\<close>

definition createObjectURL :: "world \<Rightarrow> string" where
  "createObjectURL w = ''blob:'' @ replicate (length (created w)) (CHR ''x'')"

definition handleFileSelect :: "File \<Rightarrow> world \<Rightarrow> world" where
  "handleFileSelect file w =
     (if \<not> prefix ''image/'' (file_type file) then
        w\<lparr>toasts := toasts w @ [InvalidFileType]\<rparr>
      else if file_size file > 10 * 1024 * 1024 then
        w\<lparr>toasts := toasts w @ [FileTooLarge]\<rparr>
      else
        (let url = createObjectURL w in
         w\<lparr>ui := (ui w)\<lparr>selectedFile := Some file, previewUrl := url\<rparr>,
           created := created w @ [url],
           toasts := toasts w @ [ImageUploaded]\<rparr>))"

text \<open>\<^verbatim>\<open>handleDrop\<close> and the \<^verbatim>\<open>onChange\<close> of the file input, on the list of files.\<close>

definition handleDrop :: "File list \<Rightarrow> world \<Rightarrow> world" where
  "handleDrop files w =
     (let w1 = w\<lparr>ui := (ui w)\<lparr>isDragging := False\<rparr>\<rparr> in
      case files of [] \<Rightarrow> w1 | f # _ \<Rightarrow> handleFileSelect f w1)"

definition handleChange :: "File list \<Rightarrow> world \<Rightarrow> world" where
  "handleChange files w = (case files of [] \<Rightarrow> w | f # _ \<Rightarrow> handleFileSelect f w)"

definition handleDragOver :: "world \<Rightarrow> world" where
  "handleDragOver w = w\<lparr>ui := (ui w)\<lparr>isDragging := True\<rparr>\<rparr>"

definition handleDragLeave :: "world \<Rightarrow> world" where
  "handleDragLeave w = w\<lparr>ui := (ui w)\<lparr>isDragging := False\<rparr>\<rparr>"

definition setSelectedBreed :: "string \<Rightarrow> world \<Rightarrow> world" where
  "setSelectedBreed b w = w\<lparr>ui := (ui w)\<lparr>selectedBreed := b\<rparr>\<rparr>"

text \<open>
  \<^verbatim>\<open>startAnalysis\<close> up to the call of \<^verbatim>\<open>setTimeout\<close>: \<^verbatim>\<open>null\<close> and the empty string
  are the falsy values of the two cells.
\<close>

definition startAnalysis :: "world \<Rightarrow> world" where
  "startAnalysis w =
     (if selectedFile (ui w) = None \<or> selectedBreed (ui w) = [] then w
      else w\<lparr>ui := (ui w)\<lparr>scanStage := Analyzing\<rparr>,
             timers := timers w @ [selectedBreed (ui w)]\<rparr>)"

text \<open>
  The numbers of the code are IEEE 754 doubles, and every subtraction and multiplication
  rounds its exact result to the nearest double, a tie to the one with the even
  significand. A double of the binade \<open>[2^e, 2^(e+1))\<close> is a multiple of \<open>2^(e-52)\<close>,
  with \<open>e\<close> from \<open>-1022\<close> (the binade of the subnormal numbers as well) to \<open>1023\<close>.
  \<open>binade x\<close> is that power of two for \<open>0 \<le> x\<close>, found by doubling or halving \<open>x\<close>
  at most 1022 or 1023 times. Magnitudes from \<open>2^1024\<close> on, which the code rounds to
  \<^verbatim>\<open>Infinity\<close>, are out of the range of \<open>round_double\<close>; the operands of
  \<^verbatim>\<open>variation\<close> are at most 5.
\<close>

fun scale_down :: "nat \<Rightarrow> real \<Rightarrow> real" where
  "scale_down 0 x = 1"
| "scale_down (Suc n) x = (if x < 1 then scale_down n (2 * x) / 2 else 1)"

fun scale_up :: "nat \<Rightarrow> real \<Rightarrow> real" where
  "scale_up 0 x = 1"
| "scale_up (Suc n) x = (if 2 \<le> x then 2 * scale_up n (x / 2) else 1)"

definition binade :: "real \<Rightarrow> real" where
  "binade x = (if x < 1 then scale_down 1022 x else scale_up 1023 x)"

definition ulp :: "real \<Rightarrow> real" where
  "ulp x = binade \<bar>x\<bar> / 2 ^ 52"

definition round_half_even :: "real \<Rightarrow> int" where
  "round_half_even y =
     (let f = \<lfloor>y\<rfloor>; d = y - of_int f
      in if d < 1 / 2 then f else if 1 / 2 < d then f + 1 else if even f then f else f + 1)"

definition round_double :: "real \<Rightarrow> real" where
  "round_double x = (let u = ulp x in u * of_int (round_half_even (x / u)))"

text \<open>
  \<^verbatim>\<open>Math.round\<close> returns the integer nearest to its argument, a half towards plus
  infinity, without an intermediate rounding. \<^verbatim>\<open>variation\<close> takes the value drawn by
  \<^verbatim>\<open>Math.random()\<close>, a double in \<open>[0, 1)\<close>: the difference and the product are each
  rounded to a double.
\<close>

definition Math_round :: "real \<Rightarrow> int" where
  "Math_round x = \<lfloor>x + 1 / 2\<rfloor>"

definition variation :: "real \<Rightarrow> int" where
  "variation random = Math_round (round_double (round_double (random - 1 / 2) * 10))"

text \<open>
  The object \<^verbatim>\<open>finalResult\<close>; the three draws are used in the order height, length,
  score. Reading a property of \<^verbatim>\<open>undefined\<close> throws, which is \<open>None\<close>.
\<close>

definition perturb :: "AnalysisResult \<Rightarrow> real \<Rightarrow> real \<Rightarrow> real \<Rightarrow> AnalysisResult" where
  "perturb result r1 r2 r3 =
     result\<lparr>height := max 120 (height result + variation r1),
            length_cm := max 140 (length_cm result + variation r2),
            score := max 70 (min 100 (score result + variation r3))\<rparr>"

definition finalResult :: "looked_up \<Rightarrow> real \<Rightarrow> real \<Rightarrow> real \<Rightarrow> outcome option" where
  "finalResult result r1 r2 r3 =
     (case result of
        Entry r \<Rightarrow> Some (Measured (perturb r r1 r2 r3))
      | Inherited \<Rightarrow> Some Malformed
      | Undefined \<Rightarrow> None)"

fun completion_toast :: "outcome \<Rightarrow> toast" where
  "completion_toast (Measured r) = AnalysisComplete (Some (breed r)) (Some (confidence r))"
| "completion_toast Malformed = AnalysisComplete None None"

text \<open>The callback given to \<^verbatim>\<open>setTimeout\<close>, with the breed its closure holds.\<close>

definition analysisTimeout :: "string \<Rightarrow> real \<Rightarrow> real \<Rightarrow> real \<Rightarrow> world \<Rightarrow> world" where
  "analysisTimeout selected r1 r2 r3 w =
     (case finalResult (js_or (sampleResults_get selected) (sampleResults_get ''sahiwal''))
             r1 r2 r3 of
        None \<Rightarrow> w
      | Some final \<Rightarrow>
          w\<lparr>ui := (ui w)\<lparr>analysisResult := Some final, scanStage := Results\<rparr>,
            toasts := toasts w @ [completion_toast final]\<rparr>)"

text \<open>
  \<^verbatim>\<open>resetScanner\<close>: the five setters, then the revocation of the \<^verbatim>\<open>previewUrl\<close> of
  the render the handler belongs to, when it is a non-empty string.
\<close>

definition resetScanner :: "world \<Rightarrow> world" where
  "resetScanner w =
     w\<lparr>ui := (ui w)\<lparr>scanStage := Upload, selectedFile := None, previewUrl := [],
                     analysisResult := None, selectedBreed := []\<rparr>,
       revoked := (if previewUrl (ui w) \<noteq> [] then revoked w @ [previewUrl (ui w)]
                   else revoked w)\<rparr>"

definition saveResults :: "world \<Rightarrow> world" where
  "saveResults w =
     (if analysisResult (ui w) = None then w else w\<lparr>toasts := toasts w @ [ResultsSaved]\<rparr>)"

definition getScoreColor :: "int \<Rightarrow> string" where
  "getScoreColor s =
     (if s \<ge> 90 then ''text-success''
      else if s \<ge> 80 then ''text-primary''
      else if s \<ge> 70 then ''text-yellow-600''
      else ''text-destructive'')"

definition getScoreLabel :: "int \<Rightarrow> string" where
  "getScoreLabel s =
     (if s \<ge> 90 then ''Excellent''
      else if s \<ge> 80 then ''Good''
      else if s \<ge> 70 then ''Average''
      else ''Poor'')"

section \<open>The rendered view as a machine\<close>

text \<open>
  What can happen to the component. The breed selector, the drop zone, the file input
  and the start button are rendered in stage \<^verbatim>\<open>upload\<close> only, the two buttons of the
  result view only when the stage is \<^verbatim>\<open>results\<close> and there is a result; the selector
  offers the values of \<^verbatim>\<open>breeds\<close>; the start button is disabled without a file or a
  breed. A pending timeout fires whatever the view shows, with three draws of
  \<^verbatim>\<open>Math.random\<close>.
\<close>

datatype event =
  SelectBreed string
| Change "File list"
| Drop "File list"
| DragOver
| DragLeave
| ClickStart
| Timeout real real real
| ClickReset
| ClickSave

definition is_random :: "real \<Rightarrow> bool" where
  "is_random r = (0 \<le> r \<and> r < 1)"

fun enabled :: "event \<Rightarrow> world \<Rightarrow> bool" where
  "enabled (SelectBreed b) w = (scanStage (ui w) = Upload \<and> b \<in> set (map fst breeds))"
| "enabled (Change files) w = (scanStage (ui w) = Upload)"
| "enabled (Drop files) w = (scanStage (ui w) = Upload)"
| "enabled DragOver w = (scanStage (ui w) = Upload)"
| "enabled DragLeave w = (scanStage (ui w) = Upload)"
| "enabled ClickStart w =
     (scanStage (ui w) = Upload \<and> selectedFile (ui w) \<noteq> None \<and> selectedBreed (ui w) \<noteq> [])"
| "enabled (Timeout r1 r2 r3) w =
     (timers w \<noteq> [] \<and> is_random r1 \<and> is_random r2 \<and> is_random r3)"
| "enabled ClickReset w = (scanStage (ui w) = Results \<and> analysisResult (ui w) \<noteq> None)"
| "enabled ClickSave w = (scanStage (ui w) = Results \<and> analysisResult (ui w) \<noteq> None)"

fun handle :: "event \<Rightarrow> world \<Rightarrow> world" where
  "handle (SelectBreed b) w = setSelectedBreed b w"
| "handle (Change files) w = handleChange files w"
| "handle (Drop files) w = handleDrop files w"
| "handle DragOver w = handleDragOver w"
| "handle DragLeave w = handleDragLeave w"
| "handle ClickStart w = startAnalysis w"
| "handle (Timeout r1 r2 r3) w =
     (case timers w of
        [] \<Rightarrow> w
      | selected # rest \<Rightarrow> analysisTimeout selected r1 r2 r3 (w\<lparr>timers := rest\<rparr>))"
| "handle ClickReset w = resetScanner w"
| "handle ClickSave w = saveResults w"

definition step :: "world \<Rightarrow> event \<Rightarrow> world" where
  "step w e = (if enabled e w then handle e w else w)"

definition run :: "event list \<Rightarrow> world \<Rightarrow> world" where
  "run es w = foldl step w es"

section \<open>Sample inputs and the stage invariant\<close>

definition photo :: File where
  "photo = \<lparr>file_name = ''cow.png'', file_type = ''image/png'', file_size = 204800\<rparr>"

definition photo2 :: File where
  "photo2 = \<lparr>file_name = ''cow2.jpg'', file_type = ''image/jpeg'', file_size = 512000\<rparr>"

definition memo :: File where
  "memo = \<lparr>file_name = ''memo.pdf'', file_type = ''application/pdf'', file_size = 1024\<rparr>"

definition huge :: File where
  "huge = \<lparr>file_name = ''huge.png'', file_type = ''image/png'', file_size = 10485761\<rparr>"

text \<open>The doubles nearest to 0.95, 0.15 and 0.85.\<close>

definition d095 :: real where
  "d095 = 4278419646001971 / 4503599627370496"

definition d015 :: real where
  "d015 = 5404319552844595 / 36028797018963968"

definition d085 :: real where
  "d085 = 7656119366529843 / 9007199254740992"

text \<open>A breed and a file chosen; then the analysis started and its timeout fired.\<close>

definition ready :: world where
  "ready = run [SelectBreed ''murrah'', Change [photo]] initial"

definition finished :: world where
  "finished =
     run [SelectBreed ''murrah'', Change [photo], ClickStart, Timeout (1/4) (1/2) (3/4)] initial"

text \<open>
  The invariant of the machine: a result is stored exactly in stage \<^verbatim>\<open>results\<close>, and a
  timeout is pending only in stage \<^verbatim>\<open>analyzing\<close>, where it is the only one.
\<close>

definition stage_inv :: "world \<Rightarrow> bool" where
  "stage_inv w =
     (((analysisResult (ui w) \<noteq> None) = (scanStage (ui w) = Results)) \<and>
      (timers w = [] \<or> (scanStage (ui w) = Analyzing \<and> length (timers w) = 1)))"

section \<open>Double-precision arithmetic\<close>

lemma scale_down_numeral:
  "scale_down (numeral k) x = (if x < 1 then scale_down (pred_numeral k) (2 * x) / 2 else 1)"
  by (simp add: numeral_eq_Suc)

lemma scale_up_numeral:
  "scale_up (numeral k) x = (if 2 \<le> x then 2 * scale_up (pred_numeral k) (x / 2) else 1)"
  by (simp add: numeral_eq_Suc)

lemmas double_eval = variation_def Math_round_def round_double_def ulp_def binade_def
  round_half_even_def Let_def scale_down_numeral scale_up_numeral

text \<open>
  Where the rounding matters: at the double nearest to 0.95 the exact product is just
  below 4.5 and rounds to the double 4.5, so the jitter is 5; likewise \<open>-3\<close> at 0.15 and 4
  at 0.85.
\<close>

lemma variation_d095: "variation d095 = 5"
  by (simp add: d095_def double_eval)

lemma variation_d015: "variation d015 = - 3"
  by (simp add: d015_def double_eval)

lemma variation_d085: "variation d085 = 4"
  by (simp add: d085_def double_eval)

lemma variation_quarter: "variation (1 / 4) = - 2"
  by (simp add: double_eval)

lemma variation_three_quarters: "variation (3 / 4) = 3"
  by (simp add: double_eval)

lemma round_half_even_0: "round_half_even 0 = 0"
  by (simp add: round_half_even_def)

lemma round_double_0: "round_double 0 = 0"
  by (simp add: round_double_def Let_def round_half_even_0)

lemma variation_half: "variation (1 / 2) = 0"
  by (simp add: variation_def round_double_0 Math_round_def)

text \<open>Rounding to an integer does not cross an integer.\<close>

lemma round_half_even_le: "y \<le> of_int b \<Longrightarrow> round_half_even y \<le> b"
  unfolding round_half_even_def Let_def by (auto; linarith)

lemma round_half_even_ge: "of_int a \<le> y \<Longrightarrow> a \<le> round_half_even y"
  unfolding round_half_even_def Let_def by (auto; linarith)

text \<open>The binade is a power of two, and bounded with its argument.\<close>

lemma scale_down_pos: "0 < scale_down n x"
  by (induction n arbitrary: x) simp_all

lemma scale_up_pos: "0 < scale_up n x"
  by (induction n arbitrary: x) simp_all

lemma ulp_pos: "0 < ulp x"
  by (simp add: ulp_def binade_def scale_down_pos scale_up_pos)

lemma scale_down_form: "\<exists>j. scale_down n x = 1 / 2 ^ j"
proof (induction n arbitrary: x)
  case 0
  have "scale_down 0 x = 1 / 2 ^ 0"
    by simp
  then show ?case by blast
next
  case (Suc n)
  show ?case
  proof (cases "x < 1")
    case True
    from Suc obtain j where "scale_down n (2 * x) = 1 / 2 ^ j"
      by blast
    with True have "scale_down (Suc n) x = 1 / 2 ^ Suc j"
      by simp
    then show ?thesis by blast
  next
    case False
    then have "scale_down (Suc n) x = 1 / 2 ^ 0"
      by simp
    then show ?thesis by blast
  qed
qed

lemma scale_down_below_one:
  assumes "x < 1" and "0 < n"
  shows "\<exists>j. scale_down n x = 1 / 2 ^ Suc j"
proof -
  from assms(2) obtain m where m: "n = Suc m"
    by (cases n) auto
  obtain j where "scale_down m (2 * x) = 1 / 2 ^ j"
    using scale_down_form by blast
  with assms(1) m have "scale_down n x = 1 / 2 ^ Suc j"
    by simp
  then show ?thesis by blast
qed

lemma scale_up_form: "x < 2 ^ Suc k \<Longrightarrow> \<exists>j\<le>k. scale_up n x = 2 ^ j"
proof (induction n arbitrary: x k)
  case 0
  have "scale_up 0 x = 2 ^ 0"
    by simp
  then show ?case by blast
next
  case (Suc n)
  show ?case
  proof (cases "2 \<le> x")
    case True
    with Suc.prems obtain k' where k: "k = Suc k'"
      by (cases k) auto
    with Suc.prems have "x / 2 < 2 ^ Suc k'"
      by simp
    from Suc.IH [OF this] obtain j where "j \<le> k'" "scale_up n (x / 2) = 2 ^ j"
      by blast
    with True k have "Suc j \<le> k \<and> scale_up (Suc n) x = 2 ^ Suc j"
      by simp
    then show ?thesis by blast
  next
    case False
    then have "scale_up (Suc n) x = 2 ^ 0"
      by simp
    then show ?thesis by blast
  qed
qed

text \<open>
  The doubles \<open>1/2\<close> and 5 are multiples of the unit in the last place of every number
  that is not larger in magnitude.
\<close>

lemma ulp_divides_half:
  assumes "\<bar>x\<bar> \<le> 1 / 2"
  shows "\<exists>N::int. 1 / 2 = ulp x * of_int N"
proof -
  from assms have l: "\<bar>x\<bar> < 1"
    by simp
  then obtain j where "scale_down 1022 \<bar>x\<bar> = 1 / 2 ^ Suc j"
    using scale_down_below_one [of "\<bar>x\<bar>" 1022] by auto
  with l have "ulp x = 1 / (2 ^ j * 2 * 2 ^ 52)"
    by (simp add: ulp_def binade_def)
  then have "1 / 2 = ulp x * of_int (2 ^ j * 2 ^ 52)"
    by simp
  then show ?thesis by blast
qed

lemma ulp_divides_five:
  assumes "\<bar>x\<bar> \<le> 5"
  shows "\<exists>N::int. 5 = ulp x * of_int N"
proof (cases "\<bar>x\<bar> < 1")
  case True
  obtain j where "scale_down 1022 \<bar>x\<bar> = 1 / 2 ^ j"
    using scale_down_form by blast
  with True have "ulp x = 1 / (2 ^ j * 2 ^ 52)"
    by (simp add: ulp_def binade_def)
  then have "5 = ulp x * of_int (5 * (2 ^ j * 2 ^ 52))"
    by simp
  then show ?thesis by blast
next
  case False
  from assms have "\<bar>x\<bar> < 2 ^ Suc 2"
    by simp
  from scale_up_form [OF this] obtain j where j: "j \<le> 2" "scale_up 1023 \<bar>x\<bar> = 2 ^ j"
    by blast
  from j(1) have "(52::nat) = j + (52 - j)"
    by simp
  then have "(2::real) ^ 52 = 2 ^ j * 2 ^ (52 - j)"
    by (metis power_add)
  moreover from False j(2) have "ulp x = 2 ^ j / 2 ^ 52"
    by (simp add: ulp_def binade_def)
  ultimately have "ulp x = 2 ^ j / (2 ^ j * 2 ^ (52 - j))"
    by (simp only:)
  then have "ulp x * 2 ^ (52 - j) = 1"
    by simp
  then have "5 = ulp x * of_int (5 * 2 ^ (52 - j))"
    by simp
  then show ?thesis by blast
qed

text \<open>Rounding to a double does not cross such a bound.\<close>

lemma round_double_within:
  assumes "\<bar>x\<bar> \<le> B" and "\<exists>N::int. B = ulp x * of_int N"
  shows "\<bar>round_double x\<bar> \<le> B"
proof -
  from assms(2) obtain N :: int where N: "B = ulp x * of_int N"
    by blast
  have u: "0 < ulp x"
    by (rule ulp_pos)
  from assms(1) N u have "x / ulp x \<le> of_int N" "of_int (- N) \<le> x / ulp x"
    by (simp_all add: field_simps abs_le_iff)
  then have "round_half_even (x / ulp x) \<le> N" "- N \<le> round_half_even (x / ulp x)"
    by (simp_all only: round_half_even_le round_half_even_ge)
  then have "\<bar>real_of_int (round_half_even (x / ulp x))\<bar> \<le> of_int N"
    by linarith
  then have "ulp x * \<bar>real_of_int (round_half_even (x / ulp x))\<bar> \<le> ulp x * of_int N"
    using u by simp
  with u N show ?thesis
    by (simp add: round_double_def Let_def abs_mult)
qed

text \<open>
  Hence the jitter of a draw in \<open>[0, 1)\<close> is an integer from \<open>-5\<close> to 5: the rounded
  difference stays within \<open>1/2\<close> and the rounded product within 5.
\<close>

lemma variation_range: "is_random r \<Longrightarrow> - 5 \<le> variation r \<and> variation r \<le> 5"
proof -
  assume "is_random r"
  then have a: "\<bar>r - 1 / 2\<bar> \<le> 1 / 2"
    unfolding is_random_def by linarith
  from a ulp_divides_half [OF a] have "\<bar>round_double (r - 1 / 2)\<bar> \<le> 1 / 2"
    by (rule round_double_within)
  then have b: "\<bar>round_double (r - 1 / 2) * 10\<bar> \<le> 5"
    by simp
  from b ulp_divides_five [OF b] have "\<bar>round_double (round_double (r - 1 / 2) * 10)\<bar> \<le> 5"
    by (rule round_double_within)
  then show ?thesis
    unfolding variation_def Math_round_def by (simp add: le_floor_iff floor_le_iff abs_le_iff)
qed

section \<open>Evaluation of the sample runs\<close>

lemma ready_eq:
  "ready =
     \<lparr>ui = \<lparr>selectedBreed = ''murrah'', selectedFile = Some photo, previewUrl = ''blob:'',
             scanStage = Upload, analysisResult = None, isDragging = False\<rparr>,
      toasts = [ImageUploaded], created = [''blob:''], revoked = [], timers = []\<rparr>"
  by (simp add: ready_def run_def step_def initial_def photo_def handleChange_def
      handleFileSelect_def createObjectURL_def Let_def setSelectedBreed_def breeds_def)

lemma finished_eq:
  "finished =
     \<lparr>ui = \<lparr>selectedBreed = ''murrah'', selectedFile = Some photo, previewUrl = ''blob:'',
             scanStage = Results,
             analysisResult =
               Some (Measured \<lparr>height = 133, length_cm = 148, score = 95,
                               breed = ''Murrah Buffalo'', confidence = 96\<rparr>),
             isDragging = False\<rparr>,
      toasts = [ImageUploaded, AnalysisComplete (Some ''Murrah Buffalo'') (Some 96)],
      created = [''blob:''], revoked = [], timers = []\<rparr>"
  by (simp add: finished_def run_def step_def initial_def photo_def handleChange_def
      handleFileSelect_def createObjectURL_def Let_def setSelectedBreed_def breeds_def
      startAnalysis_def is_random_def analysisTimeout_def js_or_def sampleResults_get_def
      sampleResults_def finalResult_def perturb_def variation_quarter variation_half
      variation_three_quarters)

section \<open>The preview resource\<close>

text \<open>The upload handler never calls \<^verbatim>\<open>URL.revokeObjectURL\<close>, whatever it is given.\<close>

lemma handleFileSelect_revoked: "revoked (handleFileSelect f w) = revoked w"
  by (simp add: handleFileSelect_def Let_def)

text \<open>
  C1. The claim is that an accepted upload which replaces a preview first revokes the
  previous preview URI, so that every URI created is revoked once. The handler does not:
  after two accepted uploads the first URI \<open>blob:\<close> has been replaced by \<open>blob:x\<close> and
  nothing has been revoked, and after the analysis and the reset that follow only the
  second URI has been revoked. The first one is never released.
\<close>

theorem replaced_preview_never_revoked:
  "previewUrl (ui (run [Change [photo]] initial)) = ''blob:'' \<and>
   previewUrl (ui (run [Change [photo], Change [photo2]] initial)) = ''blob:x'' \<and>
   created (run [Change [photo], Change [photo2]] initial) = [''blob:'', ''blob:x''] \<and>
   revoked (run [Change [photo], Change [photo2]] initial) = [] \<and>
   revoked (run [Change [photo], Change [photo2], SelectBreed ''gir'', ClickStart,
                 Timeout (1/4) (1/4) (1/4), ClickReset] initial) = [''blob:x'']"
  by (simp add: run_def step_def initial_def photo_def photo2_def handleChange_def
      handleFileSelect_def createObjectURL_def Let_def setSelectedBreed_def breeds_def
      startAnalysis_def is_random_def analysisTimeout_def finalResult_def js_or_def
      sampleResults_get_def sampleResults_def resetScanner_def)

section \<open>The simulated analysis\<close>

lemma get_table: "map_of sampleResults b = Some r \<Longrightarrow> sampleResults_get b = Entry r"
  by (simp add: sampleResults_get_def)

text \<open>
  C2. For every breed of the table and every three draws, the result stored when the
  analysis completes has a score between 70 and 100, a height of at least 120 and a
  length of at least 140.
\<close>

theorem analysis_result_bounds:
  assumes "b \<in> set (map fst sampleResults)"
  shows "\<exists>r. analysisResult (ui (analysisTimeout b r1 r2 r3 w)) = Some (Measured r) \<and>
             70 \<le> score r \<and> score r \<le> 100 \<and> 120 \<le> height r \<and> 140 \<le> length_cm r"
proof -
  from assms obtain base where "map_of sampleResults b = Some base"
    by (auto simp: sampleResults_def)
  then have "sampleResults_get b = Entry base"
    by (rule get_table)
  then have "analysisResult (ui (analysisTimeout b r1 r2 r3 w))
               = Some (Measured (perturb base r1 r2 r3))"
    by (simp add: analysisTimeout_def js_or_def finalResult_def)
  moreover have "70 \<le> score (perturb base r1 r2 r3) \<and> score (perturb base r1 r2 r3) \<le> 100
      \<and> 120 \<le> height (perturb base r1 r2 r3) \<and> 140 \<le> length_cm (perturb base r1 r2 r3)"
    by (simp add: perturb_def)
  ultimately show ?thesis by blast
qed

theorem analysis_result_bounds_witness:
  "''gir'' \<in> set (map fst sampleResults) \<and>
   (\<exists>r. analysisResult (ui (analysisTimeout ''gir'' 0 (1/2) (1/4) initial)) = Some (Measured r) \<and>
        70 \<le> score r \<and> score r \<le> 100 \<and> 120 \<le> height r \<and> 140 \<le> length_cm r)"
proof -
  have h: "''gir'' \<in> set (map fst sampleResults)"
    by (simp add: sampleResults_def)
  from analysis_result_bounds [OF h, of 0 "1/2" "1/4" initial] h show ?thesis
    by blast
qed

text \<open>
  C8. With the breed \<open>murrah\<close> (baseline 135, 148, 92, 96) and draws of
  \<^verbatim>\<open>Math.random\<close>, which lie in \<open>[0, 1)\<close>, every outcome has its height in
  \<open>[130, 140]\<close>, its length in \<open>[143, 153]\<close>, its score in \<open>[87, 97]\<close> and the
  confidence 96. The jitter is the one the code computes in doubles.
\<close>

theorem murrah_outcome_range:
  assumes "0 \<le> r1 \<and> r1 < 1" and "0 \<le> r2 \<and> r2 < 1" and "0 \<le> r3 \<and> r3 < 1"
  shows "\<exists>r. analysisResult (ui (analysisTimeout ''murrah'' r1 r2 r3 w)) = Some (Measured r) \<and>
           130 \<le> height r \<and> height r \<le> 140 \<and> 143 \<le> length_cm r \<and> length_cm r \<le> 153 \<and>
           87 \<le> score r \<and> score r \<le> 97 \<and> confidence r = 96"
proof -
  have v: "- 5 \<le> variation r1 \<and> variation r1 \<le> 5" "- 5 \<le> variation r2 \<and> variation r2 \<le> 5"
    "- 5 \<le> variation r3 \<and> variation r3 \<le> 5"
    using assms by (simp_all add: variation_range is_random_def)
  have "sampleResults_get ''murrah'' =
          Entry \<lparr>height = 135, length_cm = 148, score = 92,
                 breed = ''Murrah Buffalo'', confidence = 96\<rparr>"
    by (simp add: sampleResults_get_def sampleResults_def)
  then have "analysisResult (ui (analysisTimeout ''murrah'' r1 r2 r3 w)) =
      Some (Measured (perturb \<lparr>height = 135, length_cm = 148, score = 92,
                               breed = ''Murrah Buffalo'', confidence = 96\<rparr> r1 r2 r3))"
    by (simp add: analysisTimeout_def js_or_def finalResult_def)
  then show ?thesis using v by (simp add: perturb_def)
qed

theorem murrah_outcome_range_witness:
  "0 \<le> d095 \<and> d095 < 1 \<and> 0 \<le> d015 \<and> d015 < 1 \<and> 0 \<le> d085 \<and> d085 < 1 \<and>
   (\<exists>r. analysisResult (ui (analysisTimeout ''murrah'' d095 d015 d085 initial))
           = Some (Measured r) \<and>
        130 \<le> height r \<and> height r \<le> 140 \<and> 143 \<le> length_cm r \<and> length_cm r \<le> 153 \<and>
        87 \<le> score r \<and> score r \<le> 97 \<and> confidence r = 96) \<and>
   analysisResult (ui (analysisTimeout ''murrah'' d095 d015 d085 initial))
     = Some (Measured \<lparr>height = 140, length_cm = 145, score = 96,
                       breed = ''Murrah Buffalo'', confidence = 96\<rparr>)"
proof -
  have h1: "0 \<le> d095 \<and> d095 < 1"
    by (simp add: d095_def)
  have h2: "0 \<le> d015 \<and> d015 < 1"
    by (simp add: d015_def)
  have h3: "0 \<le> d085 \<and> d085 < 1"
    by (simp add: d085_def)
  have e: "analysisResult (ui (analysisTimeout ''murrah'' d095 d015 d085 initial))
     = Some (Measured \<lparr>height = 140, length_cm = 145, score = 96,
                       breed = ''Murrah Buffalo'', confidence = 96\<rparr>)"
    by (simp add: analysisTimeout_def js_or_def sampleResults_get_def sampleResults_def
        finalResult_def perturb_def variation_d095 variation_d015 variation_d085)
  from murrah_outcome_range [OF h1 h2 h3, of initial] h1 h2 h3 e show ?thesis
    by blast
qed

text \<open>
  What the lookup does for the ids of the table and for other ids. An id of the table
  gives its own entry, perturbed. An id that is neither in the table nor a member of
  \<^verbatim>\<open>Object.prototype\<close> reads \<^verbatim>\<open>undefined\<close>, and the callback does exactly what it
  does for \<open>sahiwal\<close>. Whatever the id, the read never throws: a result is stored and the
  stage becomes \<^verbatim>\<open>results\<close>.
\<close>

lemma known_breed_uses_own_entry:
  assumes "map_of sampleResults b = Some e"
  shows "analysisResult (ui (analysisTimeout b r1 r2 r3 w)) = Some (Measured (perturb e r1 r2 r3))"
proof -
  from assms have "sampleResults_get b = Entry e"
    by (rule get_table)
  then show ?thesis
    by (simp add: analysisTimeout_def js_or_def finalResult_def)
qed

lemma absent_breed_falls_back:
  assumes "b \<notin> set (map fst sampleResults)" and "b \<notin> set Object_prototype_keys"
  shows "analysisTimeout b r1 r2 r3 w = analysisTimeout ''sahiwal'' r1 r2 r3 w"
proof -
  from assms(1) have "map_of sampleResults b = None"
    by (simp add: map_of_eq_None_iff)
  with assms(2) have "sampleResults_get b = Undefined"
    by (simp add: sampleResults_get_def)
  moreover have "\<exists>e. sampleResults_get ''sahiwal'' = Entry e"
    by (simp add: sampleResults_get_def sampleResults_def)
  ultimately show ?thesis
    by (auto simp: analysisTimeout_def js_or_def)
qed

lemma analysis_always_completes:
  "analysisResult (ui (analysisTimeout b r1 r2 r3 w)) \<noteq> None \<and>
   scanStage (ui (analysisTimeout b r1 r2 r3 w)) = Results"
proof -
  have s: "\<exists>e. sampleResults_get ''sahiwal'' = Entry e"
    by (simp add: sampleResults_get_def sampleResults_def)
  show ?thesis
  proof (cases "sampleResults_get b")
    case (Entry e)
    then show ?thesis
      by (simp add: analysisTimeout_def js_or_def finalResult_def)
  next
    case Inherited
    then show ?thesis
      by (simp add: analysisTimeout_def js_or_def finalResult_def)
  next
    case Undefined
    with s show ?thesis
      by (auto simp: analysisTimeout_def js_or_def finalResult_def)
  qed
qed


section \<open>Upload and validation\<close>

text \<open>
  C4. A file whose MIME type does not start with \<open>image/\<close> is rejected with the toast
  \<open>Invalid File Type\<close> and nothing else changes: the component state, with the stored
  file, the preview URI and the stage, is as before the call, so a stage \<^verbatim>\<open>upload\<close>
  remains \<^verbatim>\<open>upload\<close>; no URL is created or revoked and no timeout is set.
\<close>

theorem handleFileSelect_rejects_non_image:
  assumes "\<not> prefix ''image/'' (file_type file)"
  shows "ui (handleFileSelect file w) = ui w \<and>
         toasts (handleFileSelect file w) = toasts w @ [InvalidFileType] \<and>
         created (handleFileSelect file w) = created w \<and>
         revoked (handleFileSelect file w) = revoked w \<and>
         timers (handleFileSelect file w) = timers w \<and>
         (scanStage (ui w) = Upload \<longrightarrow> scanStage (ui (handleFileSelect file w)) = Upload)"
  using assms by (simp add: handleFileSelect_def)

theorem handleFileSelect_rejects_non_image_witness:
  "\<not> prefix ''image/'' (file_type memo) \<and> scanStage (ui ready) = Upload \<and>
   ui (handleFileSelect memo ready) = ui ready \<and>
   toasts (handleFileSelect memo ready) = toasts ready @ [InvalidFileType] \<and>
   created (handleFileSelect memo ready) = created ready \<and>
   scanStage (ui (handleFileSelect memo ready)) = Upload"
proof -
  have h: "\<not> prefix ''image/'' (file_type memo)"
    by (simp add: memo_def)
  have u: "scanStage (ui ready) = Upload"
    by (simp add: ready_eq)
  from handleFileSelect_rejects_non_image [OF h, of ready] h u show ?thesis
    by blast
qed

text \<open>
  C5. A file of more than 10 MiB is rejected whatever its MIME type: the toast emitted
  is one of the two rejections, the file is not stored, no preview URI is created, and
  the component state is as before the call.
\<close>

theorem handleFileSelect_rejects_oversize:
  assumes "file_size file > 10 * 1024 * 1024"
  shows "ui (handleFileSelect file w) = ui w \<and>
         created (handleFileSelect file w) = created w \<and>
         revoked (handleFileSelect file w) = revoked w \<and>
         timers (handleFileSelect file w) = timers w \<and>
         (\<exists>t. toasts (handleFileSelect file w) = toasts w @ [t] \<and>
              (t = InvalidFileType \<or> t = FileTooLarge))"
  using assms by (simp add: handleFileSelect_def)

theorem handleFileSelect_rejects_oversize_witness:
  "file_size huge > 10 * 1024 * 1024 \<and> prefix ''image/'' (file_type huge) \<and>
   ui (handleFileSelect huge ready) = ui ready \<and>
   selectedFile (ui (handleFileSelect huge ready)) = Some photo \<and>
   created (handleFileSelect huge ready) = created ready \<and>
   (\<exists>t. toasts (handleFileSelect huge ready) = toasts ready @ [t] \<and>
        (t = InvalidFileType \<or> t = FileTooLarge))"
proof -
  have h: "file_size huge > 10 * 1024 * 1024"
    by (simp add: huge_def)
  have i: "prefix ''image/'' (file_type huge)"
    by (simp add: huge_def)
  have f: "selectedFile (ui ready) = Some photo"
    by (simp add: ready_eq)
  from handleFileSelect_rejects_oversize [OF h, of ready] h i f show ?thesis
    by simp
qed

section \<open>The scan stages\<close>

text \<open>
  C3. Without a file or without a breed the start action returns the state it was given,
  unchanged in every part; with both it sets the stage to \<^verbatim>\<open>analyzing\<close>; and it takes
  the stage away from \<^verbatim>\<open>upload\<close> only to \<^verbatim>\<open>analyzing\<close> and only when both are set.
\<close>

theorem startAnalysis_guard:
  "(selectedFile (ui w) = None \<or> selectedBreed (ui w) = [] \<longrightarrow> startAnalysis w = w) \<and>
   (selectedFile (ui w) \<noteq> None \<and> selectedBreed (ui w) \<noteq> [] \<longrightarrow>
      scanStage (ui (startAnalysis w)) = Analyzing) \<and>
   (scanStage (ui w) = Upload \<and> scanStage (ui (startAnalysis w)) \<noteq> Upload \<longrightarrow>
      scanStage (ui (startAnalysis w)) = Analyzing \<and>
      selectedFile (ui w) \<noteq> None \<and> selectedBreed (ui w) \<noteq> [])"
  by (simp add: startAnalysis_def)

theorem startAnalysis_guard_witness:
  "(selectedFile (ui initial) = None \<or> selectedBreed (ui initial) = []) \<and>
   startAnalysis initial = initial \<and>
   selectedFile (ui ready) \<noteq> None \<and> selectedBreed (ui ready) \<noteq> [] \<and>
   scanStage (ui ready) = Upload \<and> scanStage (ui (startAnalysis ready)) \<noteq> Upload \<and>
   scanStage (ui (startAnalysis ready)) = Analyzing"
proof -
  have a: "selectedFile (ui initial) = None"
    by (simp add: initial_def)
  have b: "selectedFile (ui ready) \<noteq> None \<and> selectedBreed (ui ready) \<noteq> [] \<and>
           scanStage (ui ready) = Upload"
    by (simp add: ready_eq)
  from startAnalysis_guard [of initial] startAnalysis_guard [of ready] a b show ?thesis
    by simp
qed

text \<open>
  C6. Reset in stage \<^verbatim>\<open>results\<close> sets the stage to \<^verbatim>\<open>upload\<close>, clears the stored
  file, the preview URI, the breed selection and the result, and revokes the preview URI
  it found when that was not empty (and revokes nothing otherwise).
\<close>

theorem resetScanner_clears:
  assumes "scanStage (ui w) = Results"
  shows "scanStage (ui (resetScanner w)) = Upload \<and>
         selectedFile (ui (resetScanner w)) = None \<and>
         previewUrl (ui (resetScanner w)) = [] \<and>
         selectedBreed (ui (resetScanner w)) = [] \<and>
         analysisResult (ui (resetScanner w)) = None \<and>
         (previewUrl (ui w) \<noteq> [] \<longrightarrow>
            revoked (resetScanner w) = revoked w @ [previewUrl (ui w)]) \<and>
         (previewUrl (ui w) = [] \<longrightarrow> revoked (resetScanner w) = revoked w)"
  by (simp add: resetScanner_def)

theorem resetScanner_clears_witness:
  "scanStage (ui finished) = Results \<and> previewUrl (ui finished) = ''blob:'' \<and>
   revoked finished = [] \<and>
   scanStage (ui (resetScanner finished)) = Upload \<and>
   selectedFile (ui (resetScanner finished)) = None \<and>
   previewUrl (ui (resetScanner finished)) = [] \<and>
   selectedBreed (ui (resetScanner finished)) = [] \<and>
   analysisResult (ui (resetScanner finished)) = None \<and>
   revoked (resetScanner finished) = [''blob:'']"
proof -
  have h: "scanStage (ui finished) = Results"
    by (simp add: finished_eq)
  have p: "previewUrl (ui finished) = ''blob:'' \<and> revoked finished = []"
    by (simp add: finished_eq)
  from resetScanner_clears [OF h] h p show ?thesis
    by simp
qed

lemma handleFileSelect_stage_inv: "stage_inv w \<Longrightarrow> stage_inv (handleFileSelect f w)"
  by (simp add: handleFileSelect_def stage_inv_def Let_def)

lemma analysisTimeout_stage_inv:
  "scanStage (ui w) = Analyzing \<Longrightarrow> analysisResult (ui w) = None \<Longrightarrow> timers w = [] \<Longrightarrow>
     stage_inv (analysisTimeout b r1 r2 r3 w)"
  by (simp add: analysisTimeout_def stage_inv_def split: option.splits)

lemma handle_stage_inv:
  assumes "stage_inv w" and "enabled e w"
  shows "stage_inv (handle e w)"
proof (cases e)
  case (SelectBreed b)
  with assms show ?thesis
    by (simp add: setSelectedBreed_def stage_inv_def)
next
  case (Change files)
  with assms show ?thesis
    by (cases files) (simp_all add: handleChange_def handleFileSelect_stage_inv)
next
  case (Drop files)
  have "stage_inv (w\<lparr>ui := (ui w)\<lparr>isDragging := False\<rparr>\<rparr>)"
    using assms(1) by (simp add: stage_inv_def)
  with Drop show ?thesis
    by (cases files) (simp_all add: handleDrop_def Let_def handleFileSelect_stage_inv)
next
  case DragOver
  with assms show ?thesis
    by (simp add: handleDragOver_def stage_inv_def)
next
  case DragLeave
  with assms show ?thesis
    by (simp add: handleDragLeave_def stage_inv_def)
next
  case ClickStart
  with assms show ?thesis
    by (auto simp: startAnalysis_def stage_inv_def)
next
  case (Timeout r1 r2 r3)
  with assms obtain b where t: "timers w = [b]" and a: "scanStage (ui w) = Analyzing"
    by (cases "timers w") (auto simp: stage_inv_def)
  with assms(1) have n: "analysisResult (ui w) = None"
    by (simp add: stage_inv_def)
  from t a n Timeout show ?thesis
    by (simp add: analysisTimeout_stage_inv)
next
  case ClickReset
  with assms show ?thesis
    by (auto simp: resetScanner_def stage_inv_def)
next
  case ClickSave
  with assms show ?thesis
    by (simp add: saveResults_def stage_inv_def)
qed

lemma run_stage_inv: "stage_inv w \<Longrightarrow> stage_inv (run es w)"
proof (induction es arbitrary: w)
  case Nil
  then show ?case
    by (simp add: run_def)
next
  case (Cons e es)
  have "stage_inv (step w e)"
    using Cons.prems by (simp add: step_def handle_stage_inv)
  then have "stage_inv (run es (step w e))"
    by (rule Cons.IH)
  then show ?case
    by (simp add: run_def)
qed

text \<open>
  C7. In every state the rendered component reaches from its initial state, by any
  sequence of events, the analysis result is not null if and only if the stage is
  \<^verbatim>\<open>results\<close>.
\<close>

theorem result_iff_results_stage:
  "(analysisResult (ui (run es initial)) \<noteq> None) = (scanStage (ui (run es initial)) = Results)"
proof -
  have "stage_inv initial"
    by (simp add: stage_inv_def initial_def)
  then have "stage_inv (run es initial)"
    by (rule run_stage_inv)
  then show ?thesis
    by (simp add: stage_inv_def)
qed

theorem result_iff_results_stage_witness:
  "scanStage (ui finished) = Results \<and> analysisResult (ui finished) \<noteq> None \<and>
   scanStage (ui ready) \<noteq> Results \<and> analysisResult (ui ready) = None"
proof -
  have h: "scanStage (ui finished) = Results \<and> scanStage (ui ready) \<noteq> Results"
    by (simp add: finished_eq ready_eq)
  from result_iff_results_stage
         [of "[SelectBreed ''murrah'', Change [photo], ClickStart, Timeout (1/4) (1/2) (3/4)]"]
       result_iff_results_stage [of "[SelectBreed ''murrah'', Change [photo]]"]
       h
  show ?thesis
    unfolding finished_def ready_def by simp
qed

section \<open>Result presentation\<close>

text \<open>
  C9. For every integer score the label is \<open>Excellent\<close> from 90, \<open>Good\<close> from 80 to
  89, \<open>Average\<close> from 70 to 79 and \<open>Poor\<close> below 70.
\<close>

theorem getScoreLabel_bands:
  "(90 \<le> s \<longrightarrow> getScoreLabel s = ''Excellent'') \<and>
   (80 \<le> s \<and> s < 90 \<longrightarrow> getScoreLabel s = ''Good'') \<and>
   (70 \<le> s \<and> s < 80 \<longrightarrow> getScoreLabel s = ''Average'') \<and>
   (s < 70 \<longrightarrow> getScoreLabel s = ''Poor'')"
  by (simp add: getScoreLabel_def)

theorem getScoreLabel_bands_witness:
  "getScoreLabel 90 = ''Excellent'' \<and> getScoreLabel 89 = ''Good'' \<and>
   getScoreLabel 80 = ''Good'' \<and> getScoreLabel 79 = ''Average'' \<and>
   getScoreLabel 70 = ''Average'' \<and> getScoreLabel 69 = ''Poor''"
  using getScoreLabel_bands [of 90] getScoreLabel_bands [of 89] getScoreLabel_bands [of 80]
    getScoreLabel_bands [of 79] getScoreLabel_bands [of 70] getScoreLabel_bands [of 69]
  by simp

end
